theory Spec2Isabelle
  imports Complex_Main
begin

section \<open>Python values, exceptions and numpy arrays\<close>

text \<open>
  The class \<open>NNModel\<close> of \<open>pygan/generativemodel/nn_model.py\<close> wraps a neural network of
  the \<open>pydbm\<close> library. Its methods mutate the wrapper object, call methods of the wrapped
  network and may raise. Every method is therefore a function from the wrapper's fields and
  the world around it (the network objects, the noise sampler, the sequence of library calls
  made so far) to an outcome, the new fields and the new world. An outcome is \<open>Inr\<close> of the
  returned value or \<open>Inl\<close> of the exception raised. The state returned next to an exception
  is the state at the moment of the \<open>raise\<close>: Python does not roll assignments back.

  Exceptions raised by the wrapper's own statements are the first five constructors;
  \<open>Raised s\<close> is an exception that came out of a library call.
\<close>

datatype exn =
    TypeError string
  | IndexError
  | ValueError
  | ZeroDivisionError
  | AttributeError
  | Raised string

text \<open>
  A numpy array, as far as this file looks at it: its \<open>shape\<close> tuple and its elements in
  row-major order. \<open>ndim\<close> is the length of the shape and the size is the product of its
  entries (1 for a 0-dimensional array).
\<close>

record 'a ndarray =
  shape :: "nat list"
  elems :: "'a list"

definition ndim :: "'a ndarray \<Rightarrow> nat" where
  "ndim arr = length (shape arr)"

definition arr_size :: "'a ndarray \<Rightarrow> nat" where
  "arr_size arr = prod_list (shape arr)"

text \<open>\<open>arr.shape[0]\<close>: indexing the empty tuple raises \<open>IndexError\<close>.\<close>

definition shape0 :: "'a ndarray \<Rightarrow> exn + nat" where
  "shape0 arr = (case shape arr of [] \<Rightarrow> Inl IndexError | d # _ \<Rightarrow> Inr d)"

text \<open>
  \<open>arr.reshape((d, -1))\<close>: numpy infers the second dimension as \<open>size / d\<close> and raises
  \<open>ValueError\<close> when \<open>d\<close> is 0 or does not divide the size. The elements are kept.
\<close>

definition reshape_rows :: "'a ndarray \<Rightarrow> nat \<Rightarrow> exn + 'a ndarray" where
  "reshape_rows arr d =
     (if d = 0 \<or> arr_size arr mod d \<noteq> 0 then Inl ValueError
      else Inr (arr\<lparr>shape := [d, arr_size arr div d]\<rparr>))"

text \<open>
  The two statements both \<open>inference\<close> (lines 133-134) and \<open>learn\<close> (lines 154-155) start
  their work on the array with:
  \<^verbatim>\<open>if arr.ndim != 2: arr = arr.reshape((arr.shape[0], -1))\<close>
\<close>

definition to_2d :: "'a ndarray \<Rightarrow> exn + 'a ndarray" where
  "to_2d arr =
     (if ndim arr \<noteq> 2
      then (case shape0 arr of Inl e \<Rightarrow> Inl e | Inr d \<Rightarrow> reshape_rows arr d)
      else Inr arr)"

text \<open>Python's \<open>%\<close> on integers: floored, as \<open>mod\<close> on \<open>int\<close> is, and raising on a zero divisor.\<close>

definition py_mod :: "int \<Rightarrow> int \<Rightarrow> exn + int" where
  "py_mod a b = (if b = 0 then Inl ZeroDivisionError else Inr (a mod b))"

datatype 'a pyval = PNone | PObj nat | PArray "'a ndarray" | PBool bool | PInt int | PStr string

section \<open>The objects of the library\<close>

text \<open>
  Objects the caller hands to the constructor are opaque to this class and are known by
  their identity (a number); the objects the constructor makes itself when an argument is
  \<open>None\<close> are \<open>MeanSquaredError()\<close>, \<open>VerificateFunctionApproximation()\<close> and \<open>Adam()\<close>, the
  last with its \<open>weight_limit\<close> and \<open>dropout_rate\<close> attributes assigned (lines 73-74).
\<close>

datatype computable_loss = MeanSquaredError | Loss_object nat

datatype verificatable_result = VerificateFunctionApproximation | Verification_object nat

datatype opt_params = Adam real real | Opt_params_object nat

text \<open>The keyword arguments of the call \<open>NeuralNetwork(...)\<close> of lines 77-97.\<close>

record 'r nn_kwargs =
  kw_nn_layer_list :: "nat list"
  kw_epochs :: int
  kw_batch_size :: int
  kw_learning_rate :: 'r
  kw_computable_loss :: computable_loss
  kw_opt_params :: opt_params
  kw_verificatable_result :: verificatable_result
  kw_pre_learned_path_list :: "string list option"
  kw_learning_attenuate_rate :: 'r
  kw_attenuate_epoch :: int

text \<open>
  A network object: the \<open>inferencing_mode\<close> attribute of its \<open>opt_params\<close>, which
  \<open>switch_inferencing_mode\<close> assigns, and everything else, which only the library reads.
\<close>

record 'n network =
  inferencing_mode :: bool
  internals :: 'n

text \<open>
  What the library does is a parameter of the model: the constructor of a network, its three
  methods and the noise sampler's \<open>generate\<close>. Each may raise (\<open>Inl\<close> of the exception's
  name) and each method returns the object as it left it.
\<close>

record ('a, 'r, 'n, 's) extern =
  NeuralNetwork :: "'r nn_kwargs \<Rightarrow> string + 'n network"
  nn_inference :: "'n network \<Rightarrow> 'a ndarray \<Rightarrow> (string + 'a ndarray) \<times> 'n network"
  nn_back_propagation :: "'n network \<Rightarrow> 'a ndarray \<Rightarrow> (string + 'a ndarray) \<times> 'n network"
  nn_optimize :: "'n network \<Rightarrow> 'r \<Rightarrow> int \<Rightarrow> (string + unit) \<times> 'n network"
  generate :: "'s \<Rightarrow> (string + 'a ndarray) \<times> 's"

text \<open>The library calls the wrapper makes, in the order it makes them.\<close>

datatype ('a, 'r) call =
    New_NeuralNetwork "'r nn_kwargs"
  | Call_inference nat "'a ndarray"
  | Call_back_propagation nat "'a ndarray"
  | Call_optimize nat 'r int
  | Call_generate

text \<open>
  The world outside the wrapper: the network objects by address (\<open>next_ref\<close> is the first
  address not yet given out), the noise sampler attached to the model, if any, and the
  calls made so far. The \<open>noise_sampler\<close> property belongs to the base class
  \<open>GenerativeModel\<close>, which is not part of this file; it is taken as a plain attribute that
  is absent until it is assigned.
\<close>

record ('a, 'r, 'n, 's) world =
  heap :: "nat \<Rightarrow> 'n network"
  next_ref :: nat
  noise_sampler :: "'s option"
  calls :: "('a, 'r) call list"

definition tag :: "string + 'x \<Rightarrow> exn + 'x" where
  "tag res = (case res of Inl s \<Rightarrow> Inl (Raised s) | Inr v \<Rightarrow> Inr v)"

definition new_NeuralNetwork ::
  "('a, 'r, 'n, 's) extern \<Rightarrow> 'r nn_kwargs \<Rightarrow> ('a, 'r, 'n, 's) world
     \<Rightarrow> (exn + nat) \<times> ('a, 'r, 'n, 's) world" where
  "new_NeuralNetwork env kw w =
     (case NeuralNetwork env kw of
        Inl s \<Rightarrow> (Inl (Raised s), w\<lparr>calls := calls w @ [New_NeuralNetwork kw]\<rparr>)
      | Inr obj \<Rightarrow>
          (Inr (next_ref w),
           w\<lparr>heap := (heap w)(next_ref w := obj),
             next_ref := next_ref w + 1,
             calls := calls w @ [New_NeuralNetwork kw]\<rparr>))"

definition call_inference ::
  "('a, 'r, 'n, 's) extern \<Rightarrow> nat \<Rightarrow> 'a ndarray \<Rightarrow> ('a, 'r, 'n, 's) world
     \<Rightarrow> (exn + 'a ndarray) \<times> ('a, 'r, 'n, 's) world" where
  "call_inference env r arr w =
     (case nn_inference env (heap w r) arr of
        (res, obj) \<Rightarrow>
          (tag res, w\<lparr>heap := (heap w)(r := obj), calls := calls w @ [Call_inference r arr]\<rparr>))"

definition call_back_propagation ::
  "('a, 'r, 'n, 's) extern \<Rightarrow> nat \<Rightarrow> 'a ndarray \<Rightarrow> ('a, 'r, 'n, 's) world
     \<Rightarrow> (exn + 'a ndarray) \<times> ('a, 'r, 'n, 's) world" where
  "call_back_propagation env r arr w =
     (case nn_back_propagation env (heap w r) arr of
        (res, obj) \<Rightarrow>
          (tag res,
           w\<lparr>heap := (heap w)(r := obj), calls := calls w @ [Call_back_propagation r arr]\<rparr>))"

definition call_optimize ::
  "('a, 'r, 'n, 's) extern \<Rightarrow> nat \<Rightarrow> 'r \<Rightarrow> int \<Rightarrow> ('a, 'r, 'n, 's) world
     \<Rightarrow> (exn + unit) \<times> ('a, 'r, 'n, 's) world" where
  "call_optimize env r lr epoch w =
     (case nn_optimize env (heap w r) lr epoch of
        (res, obj) \<Rightarrow>
          (tag res, w\<lparr>heap := (heap w)(r := obj), calls := calls w @ [Call_optimize r lr epoch]\<rparr>))"

text \<open>\<open>self.noise_sampler.generate()\<close>: reading the attribute fails when no sampler is attached.\<close>

definition call_generate ::
  "('a, 'r, 'n, 's) extern \<Rightarrow> ('a, 'r, 'n, 's) world
     \<Rightarrow> (exn + 'a ndarray) \<times> ('a, 'r, 'n, 's) world" where
  "call_generate env w =
     (case noise_sampler w of
        None \<Rightarrow> (Inl AttributeError, w)
      | Some s \<Rightarrow>
          (case generate env s of
             (res, s') \<Rightarrow>
               (tag res, w\<lparr>noise_sampler := Some s', calls := calls w @ [Call_generate]\<rparr>)))"

section \<open>The class NNModel\<close>

text \<open>The fields \<open>__init__\<close> assigns (lines 99-110), under their names in the source.\<close>

record 'r nnmodel =
  nn :: nat
  batch_size :: int
  computable_loss :: computable_loss
  learning_rate :: 'r
  q_shape :: "nat list option"
  loss_list :: "'r list"
  epoch_counter :: int
  learning_attenuate_rate :: 'r
  attenuate_epoch :: int
  logger :: string

text \<open>The arguments of \<open>__init__\<close>; \<open>None\<close> is \<open>None\<close>.\<close>

record 'r init_args =
  arg_batch_size :: int
  arg_nn_layer_list :: "nat list"
  arg_learning_rate :: 'r
  arg_learning_attenuate_rate :: 'r
  arg_attenuate_epoch :: int
  arg_computable_loss :: "computable_loss option"
  arg_opt_params :: "opt_params option"
  arg_verificatable_result :: "verificatable_result option"
  arg_pre_learned_path_list :: "string list option"
  arg_nn :: "nat option"

text \<open>Lines 67-74: the three defaults, made whether or not a network is passed in.\<close>

definition default_computable_loss :: "'r init_args \<Rightarrow> computable_loss" where
  "default_computable_loss args =
     (case arg_computable_loss args of None \<Rightarrow> MeanSquaredError | Some l \<Rightarrow> l)"

definition default_verificatable_result :: "'r init_args \<Rightarrow> verificatable_result" where
  "default_verificatable_result args =
     (case arg_verificatable_result args of
        None \<Rightarrow> VerificateFunctionApproximation | Some v \<Rightarrow> v)"

definition default_opt_params :: "'r init_args \<Rightarrow> opt_params" where
  "default_opt_params args =
     (case arg_opt_params args of None \<Rightarrow> Adam (10 ^ 10) 0 | Some p \<Rightarrow> p)"

text \<open>Lines 77-97: the keyword arguments of the default network.\<close>

definition default_kwargs :: "'r init_args \<Rightarrow> 'r nn_kwargs" where
  "default_kwargs args =
     \<lparr>kw_nn_layer_list = arg_nn_layer_list args,
      kw_epochs = 200,
      kw_batch_size = arg_batch_size args,
      kw_learning_rate = arg_learning_rate args,
      kw_computable_loss = default_computable_loss args,
      kw_opt_params = default_opt_params args,
      kw_verificatable_result = default_verificatable_result args,
      kw_pre_learned_path_list = arg_pre_learned_path_list args,
      kw_learning_attenuate_rate = arg_learning_attenuate_rate args,
      kw_attenuate_epoch = arg_attenuate_epoch args\<rparr>"

text \<open>Lines 99-110.\<close>

definition fields :: "'r init_args \<Rightarrow> nat \<Rightarrow> 'r nnmodel" where
  "fields args r =
     \<lparr>nn = r,
      batch_size = arg_batch_size args,
      computable_loss = default_computable_loss args,
      learning_rate = arg_learning_rate args,
      q_shape = None,
      loss_list = [],
      epoch_counter = 0,
      learning_attenuate_rate = arg_learning_attenuate_rate args,
      attenuate_epoch = arg_attenuate_epoch args,
      logger = ''pygan''\<rparr>"

definition init ::
  "('a, 'r, 'n, 's) extern \<Rightarrow> 'r init_args \<Rightarrow> ('a, 'r, 'n, 's) world
     \<Rightarrow> (exn + 'r nnmodel) \<times> ('a, 'r, 'n, 's) world" where
  "init env args w =
     (case arg_nn args of
        Some r \<Rightarrow> (Inr (fields args r), w)
      | None \<Rightarrow>
          (case new_NeuralNetwork env (default_kwargs args) w of
             (Inl e, w') \<Rightarrow> (Inl e, w')
           | (Inr r, w') \<Rightarrow> (Inr (fields args r), w')))"

text \<open>Lines 123-137.\<close>

definition inference ::
  "('a, 'r, 'n, 's) extern \<Rightarrow> 'r nnmodel \<Rightarrow> ('a, 'r, 'n, 's) world \<Rightarrow> 'a ndarray
     \<Rightarrow> (exn + 'a ndarray) \<times> 'r nnmodel \<times> ('a, 'r, 'n, 's) world" where
  "inference env m w observed_arr =
     (case to_2d observed_arr of
        Inl e \<Rightarrow> (Inl e, m, w)
      | Inr arr \<Rightarrow>
          (case call_inference env (nn m) arr w of
             (pred_arr, w') \<Rightarrow> (pred_arr, m, w')))"

text \<open>Lines 112-121.\<close>

definition draw ::
  "('a, 'r, 'n, 's) extern \<Rightarrow> 'r nnmodel \<Rightarrow> ('a, 'r, 'n, 's) world
     \<Rightarrow> (exn + 'a ndarray) \<times> 'r nnmodel \<times> ('a, 'r, 'n, 's) world" where
  "draw env m w =
     (case call_generate env w of
        (Inl e, w') \<Rightarrow> (Inl e, m, w')
      | (Inr observed_arr, w') \<Rightarrow> inference env m w' observed_arr)"

text \<open>Lines 151-152: the decay of the learning rate.\<close>

definition attenuate :: "('r::times) nnmodel \<Rightarrow> exn + 'r nnmodel" where
  "attenuate m =
     (case py_mod (epoch_counter m + 1) (attenuate_epoch m) of
        Inl e \<Rightarrow> Inl e
      | Inr k \<Rightarrow>
          Inr (if k = 0
               then m\<lparr>learning_rate := learning_rate m * learning_attenuate_rate m\<rparr>
               else m))"

text \<open>Lines 139-160.\<close>

definition learn ::
  "('a, 'r::times, 'n, 's) extern \<Rightarrow> 'r nnmodel \<Rightarrow> ('a, 'r, 'n, 's) world \<Rightarrow> 'a ndarray
     \<Rightarrow> (exn + 'a ndarray) \<times> 'r nnmodel \<times> ('a, 'r, 'n, 's) world" where
  "learn env m w grad_arr =
     (case attenuate m of
        Inl e \<Rightarrow> (Inl e, m, w)
      | Inr m1 \<Rightarrow>
          (case to_2d grad_arr of
             Inl e \<Rightarrow> (Inl e, m1, w)
           | Inr arr \<Rightarrow>
               (case call_back_propagation env (nn m1) arr w of
                  (Inl e, w1) \<Rightarrow> (Inl e, m1, w1)
                | (Inr delta_arr, w1) \<Rightarrow>
                    (case call_optimize env (nn m1) (learning_rate m1) (epoch_counter m1) w1 of
                       (Inl e, w2) \<Rightarrow> (Inl e, m1, w2)
                     | (Inr _, w2) \<Rightarrow>
                         (Inr delta_arr, m1\<lparr>epoch_counter := epoch_counter m1 + 1\<rparr>, w2)))))"

text \<open>Lines 162-169: an assignment to an attribute of the wrapped network's \<open>opt_params\<close>.\<close>

definition switch_inferencing_mode ::
  "'r nnmodel \<Rightarrow> ('a, 'r, 'n, 's) world \<Rightarrow> bool
     \<Rightarrow> (exn + unit) \<times> 'r nnmodel \<times> ('a, 'r, 'n, 's) world" where
  "switch_inferencing_mode m w b =
     (Inr (), m, w\<lparr>heap := (heap w)(nn m := (heap w (nn m))\<lparr>inferencing_mode := b\<rparr>)\<rparr>)"

text \<open>Lines 171-179: the property \<open>nn\<close>, its getter and its setter.\<close>

definition get_nn ::
  "'r nnmodel \<Rightarrow> ('a, 'r, 'n, 's) world \<Rightarrow> (exn + nat) \<times> 'r nnmodel \<times> ('a, 'r, 'n, 's) world" where
  "get_nn m w = (Inr (nn m), m, w)"

definition set_nn ::
  "'r nnmodel \<Rightarrow> ('a, 'r, 'n, 's) world \<Rightarrow> 'a pyval
     \<Rightarrow> (exn + unit) \<times> 'r nnmodel \<times> ('a, 'r, 'n, 's) world" where
  "set_nn m w v = (Inl (TypeError ''This property must be read-only.''), m, w)"

section \<open>Sequences of operations on one model\<close>

datatype ('a, 's) op =
    Draw
  | Inference "'a ndarray"
  | Learn "'a ndarray"
  | Switch_inferencing_mode bool
  | Get_nn
  | Set_nn "'a pyval"
  | Set_noise_sampler 's

definition as_val :: "('x \<Rightarrow> 'a pyval) \<Rightarrow> (exn + 'x) \<times> 'm \<times> 'w \<Rightarrow> (exn + 'a pyval) \<times> 'm \<times> 'w" where
  "as_val f out = (map_sum id f (fst out), snd out)"

fun step ::
  "('a, 'r::times, 'n, 's) extern \<Rightarrow> 'r nnmodel \<times> ('a, 'r, 'n, 's) world \<Rightarrow> ('a, 's) op
     \<Rightarrow> (exn + 'a pyval) \<times> 'r nnmodel \<times> ('a, 'r, 'n, 's) world" where
  "step env (m, w) Draw = as_val PArray (draw env m w)"
| "step env (m, w) (Inference arr) = as_val PArray (inference env m w arr)"
| "step env (m, w) (Learn arr) = as_val PArray (learn env m w arr)"
| "step env (m, w) (Switch_inferencing_mode b) = as_val (\<lambda>_. PNone) (switch_inferencing_mode m w b)"
| "step env (m, w) Get_nn = as_val PObj (get_nn m w)"
| "step env (m, w) (Set_nn v) = as_val (\<lambda>_. PNone) (set_nn m w v)"
| "step env (m, w) (Set_noise_sampler s) = (Inr PNone, m, w\<lparr>noise_sampler := Some s\<rparr>)"

text \<open>The state after a sequence of operations, each started whatever the one before did.\<close>

fun run ::
  "('a, 'r::times, 'n, 's) extern \<Rightarrow> 'r nnmodel \<times> ('a, 'r, 'n, 's) world \<Rightarrow> ('a, 's) op list
     \<Rightarrow> 'r nnmodel \<times> ('a, 'r, 'n, 's) world" where
  "run env st [] = st"
| "run env st (c # cs) = run env (snd (step env st c)) cs"

fun is_learn :: "('a, 's) op \<Rightarrow> bool" where
  "is_learn (Learn _) = True"
| "is_learn _ = False"

text \<open>The number of calls of \<open>learn\<close> in a sequence that returned, and of those that raised.\<close>

fun learn_returned ::
  "('a, 'r::times, 'n, 's) extern \<Rightarrow> 'r nnmodel \<times> ('a, 'r, 'n, 's) world \<Rightarrow> ('a, 's) op list
     \<Rightarrow> nat" where
  "learn_returned env st [] = 0"
| "learn_returned env st (c # cs) =
     (if is_learn c \<and> isl (fst (step env st c)) = False then 1 else 0)
       + learn_returned env (snd (step env st c)) cs"

fun learn_raised ::
  "('a, 'r::times, 'n, 's) extern \<Rightarrow> 'r nnmodel \<times> ('a, 'r, 'n, 's) world \<Rightarrow> ('a, 's) op list
     \<Rightarrow> nat" where
  "learn_raised env st [] = 0"
| "learn_raised env st (c # cs) =
     (if is_learn c \<and> isl (fst (step env st c)) then 1 else 0)
       + learn_raised env (snd (step env st c)) cs"

section \<open>Drawing as a composition\<close>

text \<open>
  Running one operation that produces a value from the world and handing that value to a
  second operation; an exception of the first ends the composition. \<open>draw_spec\<close> is
  \<open>draw\<close> as the specification words it: inference composed with noise generation.
\<close>

definition compose_ops ::
  "('w \<Rightarrow> (exn + 'x) \<times> 'w) \<Rightarrow> ('m \<Rightarrow> 'w \<Rightarrow> 'x \<Rightarrow> (exn + 'y) \<times> 'm \<times> 'w)
     \<Rightarrow> 'm \<Rightarrow> 'w \<Rightarrow> (exn + 'y) \<times> 'm \<times> 'w" where
  "compose_ops produce consume m w =
     (case fst (produce w) of
        Inl e \<Rightarrow> (Inl e, m, snd (produce w))
      | Inr x \<Rightarrow> consume m (snd (produce w)) x)"

definition draw_spec ::
  "('a, 'r, 'n, 's) extern \<Rightarrow> 'r nnmodel \<Rightarrow> ('a, 'r, 'n, 's) world
     \<Rightarrow> (exn + 'a ndarray) \<times> 'r nnmodel \<times> ('a, 'r, 'n, 's) world" where
  "draw_spec env = compose_ops (call_generate env) (inference env)"

section \<open>A concrete library, world and model\<close>

text \<open>
  A library whose network returns the array it is given from \<open>inference\<close> and from
  \<open>back_propagation\<close> and counts its \<open>optimize\<close> calls, and whose sampler generates a
  2 x 1 x 3 array of zeros; a world in which address 0 holds such a network; and the model
  the constructor makes around that network with learning rate 1, halved every 2 epochs.
\<close>

definition ex_network :: "nat network" where
  "ex_network = \<lparr>inferencing_mode = False, internals = 0\<rparr>"

definition ex_env :: "(int, real, nat, nat) extern" where
  "ex_env =
     \<lparr>NeuralNetwork = (\<lambda>kw. Inr ex_network),
      nn_inference = (\<lambda>obj arr. (Inr arr, obj)),
      nn_back_propagation = (\<lambda>obj arr. (Inr arr, obj)),
      nn_optimize = (\<lambda>obj lr epoch. (Inr (), obj\<lparr>internals := internals obj + 1\<rparr>)),
      generate = (\<lambda>s. (Inr \<lparr>shape = [2, 1, 3], elems = [0, 0, 0, 0, 0, 0]\<rparr>, s + 1))\<rparr>"

definition ex_world :: "(int, real, nat, nat) world" where
  "ex_world = \<lparr>heap = (\<lambda>_. ex_network), next_ref = 1, noise_sampler = Some 0, calls = []\<rparr>"

definition ex_args :: "real init_args" where
  "ex_args =
     \<lparr>arg_batch_size = 2,
      arg_nn_layer_list = [0, 1],
      arg_learning_rate = 1,
      arg_learning_attenuate_rate = 1 / 2,
      arg_attenuate_epoch = 2,
      arg_computable_loss = None,
      arg_opt_params = None,
      arg_verificatable_result = None,
      arg_pre_learned_path_list = None,
      arg_nn = Some 0\<rparr>"

definition ex_model :: "real nnmodel" where
  "ex_model =
     \<lparr>nn = 0, batch_size = 2, computable_loss = MeanSquaredError, learning_rate = 1,
      q_shape = None, loss_list = [], epoch_counter = 0, learning_attenuate_rate = 1 / 2,
      attenuate_epoch = 2, logger = ''pygan''\<rparr>"

definition ex_matrix :: "int ndarray" where
  "ex_matrix = \<lparr>shape = [2, 3], elems = [1, 2, 3, 4, 5, 6]\<rparr>"

definition ex_cube :: "int ndarray" where
  "ex_cube = \<lparr>shape = [2, 1, 3], elems = [1, 2, 3, 4, 5, 6]\<rparr>"

definition ex_scalar :: "int ndarray" where
  "ex_scalar = \<lparr>shape = [], elems = [7]\<rparr>"

section \<open>Basic facts about the operations\<close>

text \<open>
  The reshaping step and the decay step by cases, what each operation does to the
  wrapper's fields, and the fields no operation assigns.
\<close>

lemma to_2d_cases:
  "to_2d arr =
     (case shape arr of
        [] \<Rightarrow> Inl IndexError
      | d # ds \<Rightarrow>
          if length ds = 1 then Inr arr
          else if d = 0 then Inl ValueError
          else Inr (arr\<lparr>shape := [d, prod_list ds]\<rparr>))"
  by (simp add: to_2d_def ndim_def shape0_def reshape_rows_def arr_size_def split: list.splits)

lemma attenuate_cases:
  "attenuate m =
     (if attenuate_epoch m = 0 then Inl ZeroDivisionError
      else if (epoch_counter m + 1) mod attenuate_epoch m = 0
           then Inr (m\<lparr>learning_rate := learning_rate m * learning_attenuate_rate m\<rparr>)
           else Inr m)"
  by (simp add: attenuate_def py_mod_def)

lemma inference_model: "fst (snd (inference env m w x)) = m"
  by (simp add: inference_def split: sum.splits prod.splits)

lemma draw_model: "fst (snd (draw env m w)) = m"
  by (simp add: draw_def inference_model split: sum.splits prod.splits)

lemma learn_model:
  "fst (snd (learn env m w g)) =
     (case attenuate m of
        Inl e \<Rightarrow> m
      | Inr m1 \<Rightarrow> if isl (fst (learn env m w g)) then m1
                  else m1\<lparr>epoch_counter := epoch_counter m1 + 1\<rparr>)"
  by (simp add: learn_def split: sum.splits prod.splits)

lemma step_model:
  "fst (snd (step env (m, w) c)) =
     (case c of Learn g \<Rightarrow> fst (snd (learn env m w g)) | _ \<Rightarrow> m)"
  by (cases c)
     (simp_all add: as_val_def inference_model draw_model switch_inferencing_mode_def
        get_nn_def set_nn_def)

lemma step_learn_isl:
  "isl (fst (step env (m, w) (Learn g))) = isl (fst (learn env m w g))"
  by (cases "fst (learn env m w g)") (simp_all add: as_val_def)

lemma learn_zero: "attenuate_epoch m = 0 \<Longrightarrow> learn env m w g = (Inl ZeroDivisionError, m, w)"
  by (simp add: learn_def attenuate_cases)

lemma tag_not_own: "tag res \<noteq> Inl ZeroDivisionError"
  by (cases res) (simp_all add: tag_def)

lemma call_back_propagation_fst:
  "fst (call_back_propagation env r arr w) = tag (fst (nn_back_propagation env (heap w r) arr))"
  by (simp add: call_back_propagation_def split: prod.splits)

lemma call_optimize_fst:
  "fst (call_optimize env r lr c w) = tag (fst (nn_optimize env (heap w r) lr c))"
  by (simp add: call_optimize_def split: prod.splits)

lemma call_inference_fst:
  "fst (call_inference env r arr w) = tag (fst (nn_inference env (heap w r) arr))"
  by (simp add: call_inference_def split: prod.splits)

lemma to_2d_not_zero_division: "to_2d arr \<noteq> Inl ZeroDivisionError"
  by (simp add: to_2d_cases split: list.splits)

lemma learn_not_zero_division:
  assumes "attenuate_epoch m \<noteq> 0"
  shows "fst (learn env m w g) \<noteq> Inl ZeroDivisionError"
proof -
  obtain m1 where m1: "attenuate m = Inr m1"
    using assms by (cases "(epoch_counter m + 1) mod attenuate_epoch m = 0")
      (simp_all add: attenuate_cases)
  show ?thesis
  proof (cases "to_2d g")
    case (Inl e)
    then show ?thesis
      using m1 to_2d_not_zero_division [of g] by (simp add: learn_def)
  next
    case (Inr arr)
    obtain bp w1 where bp: "call_back_propagation env (nn m1) arr w = (bp, w1)"
      by (cases "call_back_propagation env (nn m1) arr w")
    have bp_tag: "bp \<noteq> Inl ZeroDivisionError"
      using call_back_propagation_fst [of env "nn m1" arr w] bp tag_not_own by (metis fst_conv)
    show ?thesis
    proof (cases bp)
      case (Inl e)
      then show ?thesis using m1 Inr bp bp_tag by (simp add: learn_def)
    next
      case delta: (Inr delta_arr)
      obtain opt w2 where opt:
        "call_optimize env (nn m1) (learning_rate m1) (epoch_counter m1) w1 = (opt, w2)"
        by (cases "call_optimize env (nn m1) (learning_rate m1) (epoch_counter m1) w1")
      have opt_tag: "opt \<noteq> Inl ZeroDivisionError"
        using call_optimize_fst [of env "nn m1" "learning_rate m1" "epoch_counter m1" w1] opt
          tag_not_own by (metis fst_conv)
      show ?thesis using m1 Inr bp delta opt opt_tag
        by (cases opt) (simp_all add: learn_def)
    qed
  qed
qed

lemma learn_fixed:
  "attenuate_epoch (fst (snd (learn env m w g))) = attenuate_epoch m"
  "learning_attenuate_rate (fst (snd (learn env m w g))) = learning_attenuate_rate m"
  "loss_list (fst (snd (learn env m w g))) = loss_list m"
  "nn (fst (snd (learn env m w g))) = nn m"
  by (simp_all add: learn_model attenuate_cases split: sum.splits)

lemma step_fixed:
  "attenuate_epoch (fst (snd (step env (m, w) c))) = attenuate_epoch m"
  "learning_attenuate_rate (fst (snd (step env (m, w) c))) = learning_attenuate_rate m"
  "loss_list (fst (snd (step env (m, w) c))) = loss_list m"
  "nn (fst (snd (step env (m, w) c))) = nn m"
  by (simp_all add: step_model learn_fixed split: op.splits)

lemma run_attenuate_epoch:
  "attenuate_epoch (fst (run env st ops)) = attenuate_epoch (fst st)"
  by (induction ops arbitrary: st) (simp, case_tac st, simp add: step_fixed)

lemma run_learning_attenuate_rate:
  "learning_attenuate_rate (fst (run env st ops)) = learning_attenuate_rate (fst st)"
  by (induction ops arbitrary: st) (simp, case_tac st, simp add: step_fixed)

lemma run_loss_list: "loss_list (fst (run env st ops)) = loss_list (fst st)"
  by (induction ops arbitrary: st) (simp, case_tac st, simp add: step_fixed)

lemma run_nn: "nn (fst (run env st ops)) = nn (fst st)"
  by (induction ops arbitrary: st) (simp, case_tac st, simp add: step_fixed)

lemma init_fields: "init env args w0 = (Inr m0, w1) \<Longrightarrow> \<exists>r. m0 = fields args r"
  by (auto simp: init_def split: option.splits sum.splits prod.splits)

section \<open>The read-only property nn\<close>

lemma init_ex: "init ex_env ex_args ex_world = (Inr ex_model, ex_world)"
  by (simp add: init_def fields_def default_computable_loss_def ex_args_def ex_model_def)

lemma init_ex_zero:
  "init ex_env (ex_args\<lparr>arg_attenuate_epoch := 0\<rparr>) ex_world
     = (Inr (ex_model\<lparr>attenuate_epoch := 0\<rparr>), ex_world)"
  by (simp add: init_def fields_def default_computable_loss_def ex_args_def ex_model_def)

lemma run_ex_nil: "run ex_env (mm, ex_world) [] = (mm, ex_world)"
  by simp

text \<open>
  Claim C1. For every model and every value \<open>v\<close>, assigning to the property \<open>nn\<close>, that is
  calling \<open>set_nn(v)\<close>, raises \<open>TypeError\<close>, and the wrapped network reference and all other
  fields of the wrapper (learning rate, epoch counter, loss list) as well as the world
  around it are as they were before the failed assignment.
\<close>

theorem set_nn_raises:
  "set_nn m w v = (Inl (TypeError ''This property must be read-only.''), m, w)
   \<and> step env (m, w) (Set_nn v)
       = (Inl (TypeError ''This property must be read-only.''), m, w)"
  by (simp add: set_nn_def as_val_def)

theorem set_nn_raises_witness:
  "set_nn ex_model ex_world (PObj 1)
     = (Inl (TypeError ''This property must be read-only.''), ex_model, ex_world)
   \<and> step ex_env (ex_model, ex_world) (Set_nn (PObj 1))
       = (Inl (TypeError ''This property must be read-only.''), ex_model, ex_world)"
  by (rule set_nn_raises)

section \<open>Switching the inferencing mode\<close>

text \<open>
  Claim C7. For every model and every flag \<open>b\<close>, \<open>switch_inferencing_mode(b)\<close> returns,
  sets the \<open>inferencing_mode\<close> of the wrapped network's \<open>opt_params\<close> to \<open>b\<close> and changes
  nothing else: the rest of that network and every other network object, the wrapped
  network reference, the learning rate, the epoch counter and the loss list (indeed all of
  the wrapper's fields), the noise sampler and the calls made are unchanged.
\<close>

theorem switch_inferencing_mode_frame:
  assumes "switch_inferencing_mode m w b = (res, m', w')"
  shows "res = Inr ()
    \<and> inferencing_mode (heap w' (nn m')) = b
    \<and> internals (heap w' (nn m')) = internals (heap w (nn m))
    \<and> (\<forall>r. r \<noteq> nn m \<longrightarrow> heap w' r = heap w r)
    \<and> nn m' = nn m
    \<and> learning_rate m' = learning_rate m
    \<and> epoch_counter m' = epoch_counter m
    \<and> loss_list m' = loss_list m
    \<and> m' = m
    \<and> next_ref w' = next_ref w \<and> noise_sampler w' = noise_sampler w \<and> calls w' = calls w"
  using assms by (auto simp: switch_inferencing_mode_def)

theorem switch_inferencing_mode_frame_witness:
  "switch_inferencing_mode ex_model ex_world True
     = (Inr (), ex_model,
        ex_world\<lparr>heap := (heap ex_world)(0 := ex_network\<lparr>inferencing_mode := True\<rparr>)\<rparr>)
   \<and> inferencing_mode
        (heap (ex_world\<lparr>heap := (heap ex_world)(0 := ex_network\<lparr>inferencing_mode := True\<rparr>)\<rparr>)
           (nn ex_model)) = True
   \<and> epoch_counter ex_model = 0"
proof -
  have h: "switch_inferencing_mode ex_model ex_world True
     = (Inr (), ex_model,
        ex_world\<lparr>heap := (heap ex_world)(0 := ex_network\<lparr>inferencing_mode := True\<rparr>)\<rparr>)"
    by (simp add: switch_inferencing_mode_def ex_model_def ex_world_def)
  from switch_inferencing_mode_frame [OF h] h show ?thesis
    by (simp add: ex_model_def)
qed

section \<open>A zero attenuation period\<close>

text \<open>
  Claim C10. If a model is constructed with \<open>attenuate_epoch\<close> equal to 0, every call of
  \<open>learn\<close>, after any sequence of operations, fails with \<open>ZeroDivisionError\<close>, raised by the
  unguarded modulo of the decay check before anything is assigned or called. If it is
  constructed with \<open>attenuate_epoch\<close> at least 1, the modulo has a value, the decay check
  goes through and \<open>learn\<close> never raises \<open>ZeroDivisionError\<close> itself.
\<close>

theorem learn_attenuate_epoch_zero:
  assumes "init env args w0 = (Inr m0, w1)"
    and "run env (m0, w1) ops = (m, w)"
  shows "(arg_attenuate_epoch args = 0 \<longrightarrow> learn env m w g = (Inl ZeroDivisionError, m, w))
    \<and> (1 \<le> arg_attenuate_epoch args \<longrightarrow>
         py_mod (epoch_counter m + 1) (attenuate_epoch m)
           = Inr ((epoch_counter m + 1) mod arg_attenuate_epoch args)
         \<and> (\<exists>m1. attenuate m = Inr m1)
         \<and> fst (learn env m w g) \<noteq> Inl ZeroDivisionError)"
proof -
  obtain r where "m0 = fields args r" using init_fields [OF assms(1)] by blast
  then have "attenuate_epoch m0 = arg_attenuate_epoch args" by (simp add: fields_def)
  moreover have "attenuate_epoch m = attenuate_epoch m0"
    using run_attenuate_epoch [of env "(m0, w1)" ops] assms(2) by simp
  ultimately have N: "attenuate_epoch m = arg_attenuate_epoch args" by simp
  show ?thesis
  proof (intro conjI impI)
    assume "arg_attenuate_epoch args = 0"
    then show "learn env m w g = (Inl ZeroDivisionError, m, w)"
      using N by (simp add: learn_zero)
  next
    assume "1 \<le> arg_attenuate_epoch args"
    then show "py_mod (epoch_counter m + 1) (attenuate_epoch m)
           = Inr ((epoch_counter m + 1) mod arg_attenuate_epoch args)"
      using N by (simp add: py_mod_def)
  next
    assume "1 \<le> arg_attenuate_epoch args"
    then have "attenuate_epoch m \<noteq> 0" using N by simp
    then show "\<exists>m1. attenuate m = Inr m1"
      by (cases "(epoch_counter m + 1) mod attenuate_epoch m = 0")
         (simp_all add: attenuate_cases)
  next
    assume "1 \<le> arg_attenuate_epoch args"
    then have "attenuate_epoch m \<noteq> 0" using N by simp
    then show "fst (learn env m w g) \<noteq> Inl ZeroDivisionError"
      by (rule learn_not_zero_division)
  qed
qed

theorem learn_attenuate_epoch_zero_witness:
  "learn ex_env (ex_model\<lparr>attenuate_epoch := 0\<rparr>) ex_world ex_matrix
     = (Inl ZeroDivisionError, ex_model\<lparr>attenuate_epoch := 0\<rparr>, ex_world)
   \<and> fst (learn ex_env ex_model ex_world ex_matrix) \<noteq> Inl ZeroDivisionError"
proof -
  have z: "arg_attenuate_epoch (ex_args\<lparr>arg_attenuate_epoch := 0\<rparr>) = 0" by simp
  have p: "1 \<le> arg_attenuate_epoch ex_args" by (simp add: ex_args_def)
  from learn_attenuate_epoch_zero [OF init_ex_zero run_ex_nil, of ex_matrix] z
  have a: "learn ex_env (ex_model\<lparr>attenuate_epoch := 0\<rparr>) ex_world ex_matrix
     = (Inl ZeroDivisionError, ex_model\<lparr>attenuate_epoch := 0\<rparr>, ex_world)"
    by blast
  from learn_attenuate_epoch_zero [OF init_ex run_ex_nil, of ex_matrix] p
  have b: "fst (learn ex_env ex_model ex_world ex_matrix) \<noteq> Inl ZeroDivisionError"
    by blast
  from a b show ?thesis by (rule conjI)
qed

section \<open>Sequences of operations\<close>

text \<open>
  What a run of operations does to the epoch counter and to the learning rate. The
  arithmetic behind the decay schedule: the quotient by the period goes up by one exactly
  at the multiples of the period.
\<close>

lemma div_succ:
  fixes c N :: int
  assumes "0 \<le> c" and "1 \<le> N"
  shows "nat (c + 1) div nat N =
         (if (c + 1) mod N = 0 then nat c div nat N + 1 else nat c div nat N)"
proof -
  have a: "nat (c + 1) = Suc (nat c)" using assms by simp
  have "int (Suc (nat c) mod nat N) = (c + 1) mod N"
    using assms by (simp add: zmod_int add.commute)
  then have b: "((c + 1) mod N = 0) = (Suc (nat c) mod nat N = 0)"
    by (metis of_nat_eq_0_iff)
  show ?thesis unfolding a b by (simp add: div_Suc)
qed

lemma learn_epoch_counter:
  "epoch_counter (fst (snd (learn env m w g)))
     = (if isl (fst (learn env m w g)) then epoch_counter m else epoch_counter m + 1)"
  by (cases "attenuate_epoch m = 0")
     (simp_all add: learn_zero learn_model attenuate_cases)

lemma learn_learning_rate:
  "attenuate_epoch m \<noteq> 0 \<Longrightarrow>
   learning_rate (fst (snd (learn env m w g)))
     = (if (epoch_counter m + 1) mod attenuate_epoch m = 0
        then learning_rate m * learning_attenuate_rate m else learning_rate m)"
  by (simp add: learn_model attenuate_cases split: sum.splits)

lemma step_epoch_counter:
  "epoch_counter (fst (snd (step env (m, w) c)))
     = epoch_counter m + (if is_learn c \<and> \<not> isl (fst (step env (m, w) c)) then 1 else 0)"
  by (cases c) (simp_all del: step.simps add: step_model step_learn_isl learn_epoch_counter)

lemma run_epoch_counter:
  "epoch_counter (fst (run env st ops))
     = epoch_counter (fst st) + int (learn_returned env st ops)"
proof (induction ops arbitrary: st)
  case Nil
  show ?case by simp
next
  case (Cons c cs)
  obtain m w where st: "st = (m, w)" by (cases st)
  obtain m' w' where st': "snd (step env (m, w) c) = (m', w')"
    by (cases "snd (step env (m, w) c)")
  have m': "epoch_counter m'
     = epoch_counter m + (if is_learn c \<and> \<not> isl (fst (step env (m, w) c)) then 1 else 0)"
    using step_epoch_counter [of env m w c] st' by simp
  show ?case using Cons [of "(m', w')"] st st' m' by simp
qed

lemma learn_calls_split:
  "learn_returned env st ops + learn_raised env st ops = length (filter is_learn ops)"
  by (induction ops arbitrary: st) auto

lemma step_learning_rate:
  fixes m :: "('r::times) nnmodel"
  assumes N: "1 \<le> attenuate_epoch m" and c0: "0 \<le> epoch_counter m"
    and ok: "\<not> (is_learn c \<and> isl (fst (step env (m, w) c)))"
    and lr: "learning_rate m
      = ((\<lambda>r. r * learning_attenuate_rate m) ^^ (nat (epoch_counter m) div nat (attenuate_epoch m))) r0"
  shows "learning_rate (fst (snd (step env (m, w) c)))
      = ((\<lambda>r. r * learning_attenuate_rate m)
           ^^ (nat (epoch_counter (fst (snd (step env (m, w) c)))) div nat (attenuate_epoch m))) r0"
proof (cases c)
  case (Learn g)
  have ret: "\<not> isl (fst (learn env m w g))" using ok Learn by (simp del: step.simps add: step_learn_isl)
  have e: "epoch_counter (fst (snd (learn env m w g))) = epoch_counter m + 1"
    using ret by (simp add: learn_epoch_counter)
  have l: "learning_rate (fst (snd (learn env m w g)))
     = (if (epoch_counter m + 1) mod attenuate_epoch m = 0
        then learning_rate m * learning_attenuate_rate m else learning_rate m)"
    using N by (simp add: learn_learning_rate)
  show ?thesis
    using Learn e l lr div_succ [OF c0 N] by (simp del: step.simps add: step_model)
qed (simp_all del: step.simps add: step_model lr)

lemma run_learning_rate:
  fixes m :: "('r::times) nnmodel"
  assumes "1 \<le> attenuate_epoch m" and "0 \<le> epoch_counter m"
    and "learn_raised env (m, w) ops = 0"
    and "learning_rate m
      = ((\<lambda>r. r * learning_attenuate_rate m) ^^ (nat (epoch_counter m) div nat (attenuate_epoch m))) r0"
  shows "learning_rate (fst (run env (m, w) ops))
      = ((\<lambda>r. r * learning_attenuate_rate m)
           ^^ (nat (epoch_counter (fst (run env (m, w) ops))) div nat (attenuate_epoch m))) r0"
  using assms
proof (induction ops arbitrary: m w)
  case Nil
  then show ?case by simp
next
  case (Cons c cs)
  obtain m' w' where st': "snd (step env (m, w) c) = (m', w')"
    by (cases "snd (step env (m, w) c)")
  then have m': "m' = fst (snd (step env (m, w) c))" by simp
  have ok: "\<not> (is_learn c \<and> isl (fst (step env (m, w) c)))"
    using Cons.prems(3) by (auto split: if_splits)
  have rest: "learn_raised env (m', w') cs = 0"
    using Cons.prems(3) st' by (simp split: if_splits)
  have N': "attenuate_epoch m' = attenuate_epoch m"
    and a': "learning_attenuate_rate m' = learning_attenuate_rate m"
    unfolding m' by (simp_all add: step_fixed)
  have c': "0 \<le> epoch_counter m'"
    unfolding m' using Cons.prems(2) by (simp add: step_epoch_counter)
  have lr': "learning_rate m'
      = ((\<lambda>r. r * learning_attenuate_rate m') ^^ (nat (epoch_counter m') div nat (attenuate_epoch m'))) r0"
    unfolding N' a' unfolding m'
    by (rule step_learning_rate [OF Cons.prems(1) Cons.prems(2) ok Cons.prems(4)])
  have "learning_rate (fst (run env (m', w') cs))
      = ((\<lambda>r. r * learning_attenuate_rate m')
           ^^ (nat (epoch_counter (fst (run env (m', w') cs))) div nat (attenuate_epoch m'))) r0"
    using Cons.IH [of m' w'] Cons.prems(1) N' c' rest lr' by simp
  then show ?case using st' N' a' by simp
qed

lemma init_counter:
  assumes "init env args w0 = (Inr m0, w1)"
  shows "epoch_counter m0 = 0" and "loss_list m0 = []"
    and "learning_rate m0 = arg_learning_rate args"
    and "learning_attenuate_rate m0 = arg_learning_attenuate_rate args"
    and "attenuate_epoch m0 = arg_attenuate_epoch args"
  using init_fields [OF assms] by (auto simp: fields_def)


lemmas ex_eval = learn_def attenuate_cases to_2d_cases call_back_propagation_def
  call_optimize_def tag_def as_val_def draw_def inference_def call_generate_def
  call_inference_def set_nn_def get_nn_def switch_inferencing_mode_def
  ex_env_def ex_model_def ex_world_def ex_matrix_def ex_scalar_def ex_cube_def ex_network_def


section \<open>The loss list\<close>

text \<open>
  Claim C8. The loss list is empty after construction, no operation of the class (draw,
  inference, learn, switch_inferencing_mode, get_nn, set_nn, nor attaching a noise sampler)
  changes it, whatever its outcome, and so it is empty in every state a sequence of
  operations reaches from a constructed model.
\<close>

theorem loss_list_stays_empty:
  assumes "init env args w0 = (Inr m0, w1)"
  shows "loss_list m0 = []
    \<and> loss_list (fst (run env (m0, w1) ops)) = []
    \<and> (\<forall>m w c. loss_list (fst (snd (step env (m, w) c))) = loss_list m)"
  using init_counter(2) [OF assms] run_loss_list [of env "(m0, w1)" ops]
  by (simp del: step.simps add: step_fixed)

theorem loss_list_stays_empty_witness:
  "init ex_env ex_args ex_world = (Inr ex_model, ex_world)
   \<and> loss_list (fst (run ex_env (ex_model, ex_world)
        [Draw, Inference ex_cube, Learn ex_matrix, Switch_inferencing_mode True, Get_nn,
         Set_nn PNone])) = []"
  using init_ex loss_list_stays_empty [OF init_ex] by blast


section \<open>The epoch counter\<close>

text \<open>
  Claim C9. The epoch counter is 0 after construction; a call of \<open>learn\<close> that returns
  increments it by exactly 1 and one that raises leaves it as it was; no other operation
  changes it; hence after any sequence of operations it equals the number of calls of
  \<open>learn\<close> that returned.
\<close>

theorem epoch_counter_counts_learns:
  assumes "init env args w0 = (Inr m0, w1)"
  shows "epoch_counter m0 = 0
    \<and> epoch_counter (fst (run env (m0, w1) ops)) = int (learn_returned env (m0, w1) ops)
    \<and> (\<forall>m w g. epoch_counter (fst (snd (learn env m w g)))
          = (if isl (fst (learn env m w g)) then epoch_counter m else epoch_counter m + 1))
    \<and> (\<forall>m w c. \<not> is_learn c \<longrightarrow> epoch_counter (fst (snd (step env (m, w) c))) = epoch_counter m)"
  using init_counter(1) [OF assms] run_epoch_counter [of env "(m0, w1)" ops]
  by (simp del: step.simps add: learn_epoch_counter step_epoch_counter)

lemma learn_returned_ex:
  "learn_returned ex_env (ex_model, ex_world)
     [Learn ex_matrix, Draw, Learn ex_scalar, Set_nn PNone, Learn ex_cube] = 2"
  by (simp add: learn_def attenuate_cases to_2d_cases call_back_propagation_def
        call_optimize_def tag_def as_val_def draw_def inference_def call_generate_def
        call_inference_def set_nn_def
        ex_env_def ex_model_def ex_world_def ex_matrix_def ex_scalar_def ex_cube_def
        ex_network_def)

theorem epoch_counter_counts_learns_witness:
  "init ex_env ex_args ex_world = (Inr ex_model, ex_world)
   \<and> epoch_counter (fst (run ex_env (ex_model, ex_world)
        [Learn ex_matrix, Draw, Learn ex_scalar, Set_nn PNone, Learn ex_cube])) = 2"
proof -
  from epoch_counter_counts_learns
         [OF init_ex, of "[Learn ex_matrix, Draw, Learn ex_scalar, Set_nn PNone, Learn ex_cube]"]
  have "epoch_counter (fst (run ex_env (ex_model, ex_world)
          [Learn ex_matrix, Draw, Learn ex_scalar, Set_nn PNone, Learn ex_cube]))
        = int (learn_returned ex_env (ex_model, ex_world)
          [Learn ex_matrix, Draw, Learn ex_scalar, Set_nn PNone, Learn ex_cube])"
    by (rule conjunct1 [OF conjunct2])
  then have "epoch_counter (fst (run ex_env (ex_model, ex_world)
          [Learn ex_matrix, Draw, Learn ex_scalar, Set_nn PNone, Learn ex_cube])) = 2"
    by (simp only: learn_returned_ex of_nat_numeral)
  with init_ex show ?thesis by (rule conjI)
qed

section \<open>The decay schedule of the learning rate\<close>

text \<open>
  For an associative multiplication with unit (exact arithmetic), multiplying by \<open>a\<close>
  one factor at a time \<open>k\<close> times is multiplying by \<open>a ^ k\<close>.
\<close>

lemma funpow_times_power:
  fixes r a :: "'r::monoid_mult"
  shows "((\<lambda>x. x * a) ^^ k) r = r * a ^ k"
  by (induction k) (simp_all add: mult.assoc power_commutes)

text \<open>
  Claim C2, as amended. For every model constructed with initial learning rate \<open>r0\<close>,
  attenuation factor \<open>a\<close> and attenuate epoch \<open>N \<ge> 1\<close>, after a sequence of operations
  in which no call of \<open>learn\<close> raises and \<open>n\<close> calls of \<open>learn\<close> are made, the stored
  learning rate is \<open>r0\<close> multiplied by \<open>a\<close> one factor at a time \<open>n div N\<close> times, which is
  \<open>r0 * a ^ (n div N)\<close> by \<open>funpow_times_power\<close> where multiplication is exact. The
  multiplication is whatever \<open>*\<close> is on the type of the learning rate; nothing is assumed
  of it. The rate is multiplied by \<open>a\<close> in exactly the calls of \<open>learn\<close> whose pre-call
  epoch counter \<open>c\<close> satisfies \<open>(c + 1) mod N = 0\<close>, whether they return or raise later.
\<close>

theorem learning_rate_after_learns:
  fixes args :: "('r::times) init_args"
  assumes "init env args w0 = (Inr m0, w1)"
    and "1 \<le> arg_attenuate_epoch args"
    and "learn_raised env (m0, w1) ops = 0"
  shows "learning_rate (fst (run env (m0, w1) ops))
      = ((\<lambda>r. r * arg_learning_attenuate_rate args)
           ^^ (length (filter is_learn ops) div nat (arg_attenuate_epoch args)))
          (arg_learning_rate args)
    \<and> (\<forall>m w g. attenuate_epoch m \<noteq> 0 \<longrightarrow>
          learning_rate (fst (snd (learn env m w g)))
            = (if (epoch_counter m + 1) mod attenuate_epoch m = 0
               then learning_rate m * learning_attenuate_rate m else learning_rate m))"
proof -
  note i = init_counter [OF assms(1)]
  have n: "learn_returned env (m0, w1) ops = length (filter is_learn ops)"
    using learn_calls_split [of env "(m0, w1)" ops] assms(3) by simp
  have e: "epoch_counter (fst (run env (m0, w1) ops)) = int (length (filter is_learn ops))"
    using run_epoch_counter [of env "(m0, w1)" ops] i(1) n by simp
  have "learning_rate (fst (run env (m0, w1) ops))
      = ((\<lambda>r. r * learning_attenuate_rate m0)
           ^^ (nat (epoch_counter (fst (run env (m0, w1) ops))) div nat (attenuate_epoch m0)))
          (arg_learning_rate args)"
    using assms(2) assms(3) i by (intro run_learning_rate) simp_all
  then show ?thesis using e i by (simp add: learn_learning_rate)
qed

lemma learn_raised_ex:
  "learn_raised ex_env (ex_model, ex_world)
     [Learn ex_matrix, Learn ex_cube, Draw, Learn ex_matrix, Learn ex_matrix] = 0"
  by (simp add: ex_eval)

theorem learning_rate_after_learns_witness:
  "init ex_env ex_args ex_world = (Inr ex_model, ex_world)
   \<and> 1 \<le> arg_attenuate_epoch ex_args
   \<and> learn_raised ex_env (ex_model, ex_world)
        [Learn ex_matrix, Learn ex_cube, Draw, Learn ex_matrix, Learn ex_matrix] = 0
   \<and> learning_rate (fst (run ex_env (ex_model, ex_world)
        [Learn ex_matrix, Learn ex_cube, Draw, Learn ex_matrix, Learn ex_matrix])) = 1 / 4"
proof -
  have p: "1 \<le> arg_attenuate_epoch ex_args" by (simp add: ex_args_def)
  have "learning_rate (fst (run ex_env (ex_model, ex_world)
        [Learn ex_matrix, Learn ex_cube, Draw, Learn ex_matrix, Learn ex_matrix]))
      = ((\<lambda>r. r * arg_learning_attenuate_rate ex_args)
           ^^ (length (filter is_learn
                 ([Learn ex_matrix, Learn ex_cube, Draw, Learn ex_matrix, Learn ex_matrix]
                    :: (int, nat) op list))
               div nat (arg_attenuate_epoch ex_args)))
          (arg_learning_rate ex_args)"
    by (rule conjunct1 [OF learning_rate_after_learns [OF init_ex p learn_raised_ex]])
  also have "\<dots> = ((\<lambda>r. r * (1 / 2)) ^^ Suc (Suc 0)) (1::real)"
    by (simp add: ex_args_def)
  also have "\<dots> = 1 / 4"
    by simp
  finally show ?thesis using init_ex p learn_raised_ex by blast
qed

text \<open>
  The claim as stated, for any \<open>n\<close> calls of \<open>learn\<close>, fails when a call raises after the
  decay: \<open>learn\<close> assigns the decayed learning rate before it reshapes the gradient and
  calls the network, and increments the epoch counter only at the end. With period 2, a
  second call on a 0-dimensional gradient raises \<open>IndexError\<close> with the rate halved and the
  counter still 1, so the third call halves the rate again: three calls leave 1/4, not
  \<open>1 * (1/2) ^ (3 div 2) = 1/2\<close>.
\<close>

theorem learning_rate_counterexample:
  "init ex_env ex_args ex_world = (Inr ex_model, ex_world)
   \<and> learning_rate (fst (run ex_env (ex_model, ex_world)
        [Learn ex_matrix, Learn ex_scalar, Learn ex_matrix])) = 1 / 4
   \<and> learning_rate (fst (run ex_env (ex_model, ex_world)
        [Learn ex_matrix, Learn ex_scalar, Learn ex_matrix]))
      \<noteq> arg_learning_rate ex_args
          * arg_learning_attenuate_rate ex_args
              ^ (length ([Learn ex_matrix, Learn ex_scalar, Learn ex_matrix]
                           :: (int, nat) op list)
                 div nat (arg_attenuate_epoch ex_args))"
proof -
  have r: "learning_rate (fst (run ex_env (ex_model, ex_world)
        [Learn ex_matrix, Learn ex_scalar, Learn ex_matrix])) = 1 / 4"
    by (simp add: ex_eval)
  have c: "arg_learning_rate ex_args
          * arg_learning_attenuate_rate ex_args
              ^ (length ([Learn ex_matrix, Learn ex_scalar, Learn ex_matrix]
                           :: (int, nat) op list)
                 div nat (arg_attenuate_epoch ex_args)) = 1 / 2"
    by (simp add: ex_args_def)
  show ?thesis unfolding r c using init_ex by simp
qed

section \<open>Inference and the batch dimension\<close>

lemma inference_cases:
  "inference env m w x =
     (case shape x of
        [] \<Rightarrow> (Inl IndexError, m, w)
      | d # ds \<Rightarrow>
          if length ds = 1
          then (fst (call_inference env (nn m) x w), m, snd (call_inference env (nn m) x w))
          else if d = 0 then (Inl ValueError, m, w)
          else (fst (call_inference env (nn m) (x\<lparr>shape := [d, prod_list ds]\<rparr>) w), m,
                snd (call_inference env (nn m) (x\<lparr>shape := [d, prod_list ds]\<rparr>) w)))"
  by (simp add: inference_def to_2d_cases split: list.splits prod.splits)

lemma call_inference_calls:
  "calls (snd (call_inference env r arr w)) = calls w @ [Call_inference r arr]"
  by (simp add: call_inference_def split: prod.splits)


lemma inference_ex_cube:
  "inference ex_env ex_model ex_world ex_cube
     = (Inr \<lparr>shape = [2, 3], elems = [1, 2, 3, 4, 5, 6]\<rparr>, ex_model,
        ex_world\<lparr>calls := [Call_inference 0 \<lparr>shape = [2, 3], elems = [1, 2, 3, 4, 5, 6]\<rparr>]\<rparr>)"
  by (simp add: ex_eval fun_eq_iff)


text \<open>
  Claim C4, as amended. \<open>inference(x)\<close> never changes the wrapper's fields. When \<open>x\<close> is
  2-dimensional it makes exactly one call of the wrapped network's \<open>inference\<close>, on \<open>x\<close>
  unmodified; when \<open>x\<close> has another number of dimensions, at least one, and a first
  dimension \<open>d\<close> other than 0, it makes exactly one such call on \<open>x\<close> reshaped to \<open>d\<close> rows
  (shape \<open>[d, product of the other dimensions]\<close>, same elements); in both cases its outcome
  is the outcome of that call. When \<open>x\<close> is 0-dimensional it raises \<open>IndexError\<close>, and when
  \<open>x\<close> is not 2-dimensional and its first dimension is 0 it raises \<open>ValueError\<close>, in both
  cases without calling the network. Hence every array that is forwarded to the network
  is 2-dimensional with the first dimension and the elements of the input.
\<close>

theorem inference_forwards:
  assumes "inference env m w x = (res, m', w')"
  shows "m' = m
    \<and> (case shape x of
         [] \<Rightarrow> res = Inl IndexError \<and> w' = w
       | d # ds \<Rightarrow>
           if length ds = 1
           then calls w' = calls w @ [Call_inference (nn m) x]
                \<and> res = tag (fst (nn_inference env (heap w (nn m)) x))
           else if d = 0 then res = Inl ValueError \<and> w' = w
           else calls w' = calls w @ [Call_inference (nn m) (x\<lparr>shape := [d, prod_list ds]\<rparr>)]
                \<and> res = tag (fst (nn_inference env (heap w (nn m))
                                    (x\<lparr>shape := [d, prod_list ds]\<rparr>))))
    \<and> (\<forall>r arr. Call_inference r arr \<in> set (drop (length (calls w)) (calls w'))
          \<longrightarrow> r = nn m \<and> ndim arr = 2 \<and> shape0 arr = shape0 x \<and> elems arr = elems x)"
proof (cases "shape x")
  case Nil
  then show ?thesis using assms by (simp add: inference_cases)
next
  case (Cons d ds)
  show ?thesis
  proof (cases "length ds = 1")
    case True
    then have "ndim x = 2" using Cons by (simp add: ndim_def)
    then show ?thesis
      using assms Cons True
      by (auto simp: inference_cases call_inference_calls call_inference_fst)
  next
    case False
    then show ?thesis
      using assms Cons
      by (auto simp: inference_cases call_inference_calls call_inference_fst ndim_def shape0_def)
  qed
qed

theorem inference_forwards_witness:
  "inference ex_env ex_model ex_world ex_cube
     = (Inr \<lparr>shape = [2, 3], elems = [1, 2, 3, 4, 5, 6]\<rparr>, ex_model,
        ex_world\<lparr>calls := [Call_inference 0 \<lparr>shape = [2, 3], elems = [1, 2, 3, 4, 5, 6]\<rparr>]\<rparr>)
   \<and> shape ex_cube = [2, 1, 3]
   \<and> calls (ex_world\<lparr>calls := [Call_inference 0 \<lparr>shape = [2, 3], elems = [1, 2, 3, 4, 5, 6]\<rparr>]\<rparr>)
       = calls ex_world @ [Call_inference (nn ex_model) (ex_cube\<lparr>shape := [2, prod_list [1, 3]]\<rparr>)]"
proof -
  have s: "shape ex_cube = [2, 1, 3]" by (simp add: ex_cube_def)
  from inference_forwards [OF inference_ex_cube] s
  have "calls (ex_world\<lparr>calls := [Call_inference 0 \<lparr>shape = [2, 3], elems = [1, 2, 3, 4, 5, 6]\<rparr>]\<rparr>)
       = calls ex_world @ [Call_inference (nn ex_model) (ex_cube\<lparr>shape := [2, prod_list [1, 3]]\<rparr>)]"
    by simp
  with inference_ex_cube s show ?thesis by blast
qed


text \<open>
  The claim as stated, for every input array, fails on a 0-dimensional array: it is not
  2-dimensional, and it is not reshaped and forwarded either, because \<open>shape[0]\<close> raises.
\<close>

theorem inference_counterexample:
  "ndim ex_scalar \<noteq> 2
   \<and> inference ex_env ex_model ex_world ex_scalar = (Inl IndexError, ex_model, ex_world)"
  by (simp add: inference_cases ndim_def ex_scalar_def)


section \<open>One step of learning\<close>

lemma call_back_propagation_eq:
  "nn_back_propagation env (heap w r) arr = (bp, obj) \<Longrightarrow>
   call_back_propagation env r arr w
     = (tag bp, w\<lparr>heap := (heap w)(r := obj), calls := calls w @ [Call_back_propagation r arr]\<rparr>)"
  by (simp add: call_back_propagation_def)

lemma call_optimize_eq:
  "nn_optimize env (heap w r) lr c = (opt, obj) \<Longrightarrow>
   call_optimize env r lr c w
     = (tag opt, w\<lparr>heap := (heap w)(r := obj), calls := calls w @ [Call_optimize r lr c]\<rparr>)"
  by (simp add: call_optimize_def)


text \<open>
  Claim C3, as amended. For every model whose \<open>attenuate_epoch\<close> is not 0 and every
  gradient array that is 2-dimensional, or has at least one dimension and a first dimension
  other than 0, a call \<open>learn(g)\<close> makes exactly one \<open>back_propagation\<close> call on the
  wrapped network, on \<open>g\<close> reshaped to 2 dimensions if needed. If that call raises, \<open>learn\<close>
  raises the same exception and calls nothing else. Otherwise exactly one \<open>optimize\<close> call
  follows, on the network as back-propagation left it, with the post-decay learning rate
  and the pre-increment epoch counter; if it raises, \<open>learn\<close> raises the same exception, and
  if it returns, \<open>learn\<close> returns the delta array of the back-propagation call and
  increments the epoch counter. The stored learning rate is the post-decay one whatever
  the outcome.
\<close>

theorem learn_calls:
  assumes N: "attenuate_epoch m \<noteq> 0"
    and shp: "shape grad_arr = d # ds" and ok: "length ds = 1 \<or> d \<noteq> 0"
    and arr: "arr = (if length ds = 1 then grad_arr else grad_arr\<lparr>shape := [d, prod_list ds]\<rparr>)"
    and lr: "lr = (if (epoch_counter m + 1) mod attenuate_epoch m = 0
                  then learning_rate m * learning_attenuate_rate m else learning_rate m)"
    and bp: "nn_back_propagation env (heap w (nn m)) arr = (bp, obj1)"
    and opt: "nn_optimize env obj1 lr (epoch_counter m) = (opt, obj2)"
    and out: "learn env m w grad_arr = (res, m', w')"
  shows "calls w'
      = calls w @ (case bp of
                     Inl _ \<Rightarrow> [Call_back_propagation (nn m) arr]
                   | Inr _ \<Rightarrow> [Call_back_propagation (nn m) arr,
                               Call_optimize (nn m) lr (epoch_counter m)])
    \<and> res = (case bp of
               Inl s \<Rightarrow> Inl (Raised s)
             | Inr delta_arr \<Rightarrow> (case opt of Inl s \<Rightarrow> Inl (Raised s) | Inr _ \<Rightarrow> Inr delta_arr))
    \<and> heap w' = (heap w)(nn m := (case bp of Inl _ \<Rightarrow> obj1 | Inr _ \<Rightarrow> obj2))
    \<and> learning_rate m' = lr
    \<and> epoch_counter m' = (if isl bp \<or> isl opt then epoch_counter m else epoch_counter m + 1)
    \<and> nn m' = nn m"
proof -
  define m1 where "m1 = (if (epoch_counter m + 1) mod attenuate_epoch m = 0
       then m\<lparr>learning_rate := learning_rate m * learning_attenuate_rate m\<rparr> else m)"
  have att: "attenuate m = Inr m1" using N by (simp add: attenuate_cases m1_def)
  have m1: "nn m1 = nn m" "learning_rate m1 = lr" "epoch_counter m1 = epoch_counter m"
    by (simp_all add: m1_def lr)
  have t2: "to_2d grad_arr = Inr arr" using shp ok arr by (auto simp: to_2d_cases)
  define w1 where "w1 = w\<lparr>heap := (heap w)(nn m := obj1),
                          calls := calls w @ [Call_back_propagation (nn m) arr]\<rparr>"
  have cbp: "call_back_propagation env (nn m1) arr w = (tag bp, w1)"
    unfolding w1_def m1 by (rule call_back_propagation_eq [OF bp])
  show ?thesis
  proof (cases bp)
    case (Inl s)
    then have "learn env m w grad_arr = (Inl (Raised s), m1, w1)"
      using att t2 cbp by (simp add: learn_def tag_def)
    then show ?thesis using out Inl m1 by (auto simp: w1_def)
  next
    case (Inr delta_arr)
    have h1: "heap w1 (nn m) = obj1" by (simp add: w1_def)
    define w2 where "w2 = w1\<lparr>heap := (heap w1)(nn m := obj2),
                          calls := calls w1 @ [Call_optimize (nn m) lr (epoch_counter m)]\<rparr>"
    have copt: "call_optimize env (nn m1) (learning_rate m1) (epoch_counter m1) w1 = (tag opt, w2)"
      unfolding w2_def m1 by (rule call_optimize_eq) (simp add: h1 opt)
    show ?thesis
    proof (cases opt)
      case (Inl s)
      then have "learn env m w grad_arr = (Inl (Raised s), m1, w2)"
        using att t2 cbp copt Inr by (simp add: learn_def tag_def)
      then show ?thesis using out Inl Inr m1 by (auto simp: w1_def w2_def)
    next
      case u: (Inr u)
      then have "learn env m w grad_arr
          = (Inr delta_arr, m1\<lparr>epoch_counter := epoch_counter m1 + 1\<rparr>, w2)"
        using att t2 cbp copt Inr by (simp add: learn_def tag_def)
      then show ?thesis using out u Inr m1 by (auto simp: w1_def w2_def)
    qed
  qed
qed


theorem learn_calls_witness:
  "attenuate_epoch (ex_model\<lparr>epoch_counter := 1\<rparr>) \<noteq> 0
   \<and> shape ex_cube = [2, 1, 3]
   \<and> calls (snd (snd (learn ex_env (ex_model\<lparr>epoch_counter := 1\<rparr>) ex_world ex_cube)))
       = [Call_back_propagation 0 \<lparr>shape = [2, 3], elems = [1, 2, 3, 4, 5, 6]\<rparr>,
          Call_optimize 0 (1 / 2) 1]
   \<and> fst (learn ex_env (ex_model\<lparr>epoch_counter := 1\<rparr>) ex_world ex_cube)
       = Inr \<lparr>shape = [2, 3], elems = [1, 2, 3, 4, 5, 6]\<rparr>
   \<and> epoch_counter (fst (snd (learn ex_env (ex_model\<lparr>epoch_counter := 1\<rparr>) ex_world ex_cube))) = 2"
proof -
  let ?m = "ex_model\<lparr>epoch_counter := 1\<rparr>"
  let ?arr = "\<lparr>shape = [2, 3], elems = [1, 2, 3, 4, 5, 6 :: int]\<rparr>"
  have N: "attenuate_epoch ?m \<noteq> 0" by (simp add: ex_model_def)
  have shp: "shape ex_cube = 2 # [1, 3]" by (simp add: ex_cube_def)
  have ok: "length [1, 3 :: nat] = 1 \<or> (2 :: nat) \<noteq> 0" by simp
  have arr: "?arr = (if length [1, 3 :: nat] = 1 then ex_cube
                     else ex_cube\<lparr>shape := [2, prod_list [1, 3]]\<rparr>)"
    by (simp add: ex_cube_def)
  have lr: "(1 / 2 :: real) = (if (epoch_counter ?m + 1) mod attenuate_epoch ?m = 0
                  then learning_rate ?m * learning_attenuate_rate ?m else learning_rate ?m)"
    by (simp add: ex_model_def)
  have bp: "nn_back_propagation ex_env (heap ex_world (nn ?m)) ?arr = (Inr ?arr, ex_network)"
    by (simp add: ex_env_def ex_world_def)
  have opt: "nn_optimize ex_env ex_network (1 / 2) (epoch_counter ?m)
               = (Inr (), ex_network\<lparr>internals := 1\<rparr>)"
    by (simp add: ex_env_def ex_network_def)
  have out: "learn ex_env ?m ex_world ex_cube
      = (fst (learn ex_env ?m ex_world ex_cube),
         fst (snd (learn ex_env ?m ex_world ex_cube)),
         snd (snd (learn ex_env ?m ex_world ex_cube)))"
    by simp
  from learn_calls [OF N shp ok arr lr bp opt out] N shp
  show ?thesis by (simp add: ex_model_def ex_world_def)
qed


text \<open>
  The claim as stated, for every gradient array, fails on a 0-dimensional array: \<open>learn\<close>
  raises \<open>IndexError\<close> at \<open>shape[0]\<close>, calls neither \<open>back_propagation\<close> nor \<open>optimize\<close> and
  returns no delta array.
\<close>

theorem learn_counterexample:
  "learn ex_env ex_model ex_world ex_scalar = (Inl IndexError, ex_model, ex_world)
   \<and> calls ex_world = []"
  by (simp add: ex_eval)

section \<open>Drawing samples\<close>

text \<open>
  Claim C5. For every model with an attached noise sampler, \<open>draw()\<close> is \<open>inference\<close>
  composed with one call of the sampler's \<open>generate\<close>: the sampler is called once, and
  what \<open>draw\<close> returns or raises, and the state it leaves, are exactly those of
  \<open>inference\<close> applied to the generated array in the world the sampler's call left (the
  exception of \<open>generate\<close> itself when it raises). Nothing else is done to the array.
\<close>

theorem draw_is_inference_of_noise:
  assumes "noise_sampler w = Some s" and "generate env s = (noise, s')"
  shows "draw env m w = draw_spec env m w
    \<and> draw env m w
        = (case noise of
             Inl e \<Rightarrow>
               (Inl (Raised e), m,
                w\<lparr>noise_sampler := Some s', calls := calls w @ [Call_generate]\<rparr>)
           | Inr observed_arr \<Rightarrow>
               inference env m
                 (w\<lparr>noise_sampler := Some s', calls := calls w @ [Call_generate]\<rparr>)
                 observed_arr)"
proof -
  have g: "call_generate env w
      = (tag noise, w\<lparr>noise_sampler := Some s', calls := calls w @ [Call_generate]\<rparr>)"
    using assms by (simp add: call_generate_def)
  show ?thesis
    by (cases noise) (simp_all add: draw_def draw_spec_def compose_ops_def g tag_def)
qed

theorem draw_is_inference_of_noise_witness:
  "noise_sampler ex_world = Some 0
   \<and> generate ex_env 0 = (Inr \<lparr>shape = [2, 1, 3], elems = [0, 0, 0, 0, 0, 0]\<rparr>, 1)
   \<and> draw ex_env ex_model ex_world
       = inference ex_env ex_model
           (ex_world\<lparr>noise_sampler := Some 1, calls := calls ex_world @ [Call_generate]\<rparr>)
           \<lparr>shape = [2, 1, 3], elems = [0, 0, 0, 0, 0, 0]\<rparr>
   \<and> draw ex_env ex_model ex_world = draw_spec ex_env ex_model ex_world"
proof -
  have a: "noise_sampler ex_world = Some 0" by (simp add: ex_world_def)
  have b: "generate ex_env 0 = (Inr \<lparr>shape = [2, 1, 3], elems = [0, 0, 0, 0, 0, 0]\<rparr>, 1)"
    by (simp add: ex_env_def)
  note t = draw_is_inference_of_noise [OF a b, of ex_model]
  have c: "draw ex_env ex_model ex_world
       = inference ex_env ex_model
           (ex_world\<lparr>noise_sampler := Some 1, calls := calls ex_world @ [Call_generate]\<rparr>)
           \<lparr>shape = [2, 1, 3], elems = [0, 0, 0, 0, 0, 0]\<rparr>"
    using conjunct2 [OF t] by (simp only: sum.case)
  have d: "draw ex_env ex_model ex_world = draw_spec ex_env ex_model ex_world"
    by (rule conjunct1 [OF t])
  from a b c d show ?thesis by (intro conjI)
qed


section \<open>The constructor\<close>

lemma init_ex_none:
  "init ex_env (ex_args\<lparr>arg_nn := None\<rparr>) ex_world
     = (Inr (ex_model\<lparr>nn := 1\<rparr>),
        ex_world
          \<lparr>heap := (heap ex_world)(1 := ex_network),
           next_ref := 2,
           calls :=
             [New_NeuralNetwork
                \<lparr>kw_nn_layer_list = [0, 1], kw_epochs = 200, kw_batch_size = 2,
                 kw_learning_rate = 1, kw_computable_loss = MeanSquaredError,
                 kw_opt_params = Adam (10 ^ 10) 0,
                 kw_verificatable_result = VerificateFunctionApproximation,
                 kw_pre_learned_path_list = None, kw_learning_attenuate_rate = 1 / 2,
                 kw_attenuate_epoch = 2\<rparr>]\<rparr>)"
  by (simp add: init_def new_NeuralNetwork_def fields_def default_kwargs_def
        default_computable_loss_def default_opt_params_def default_verificatable_result_def
        ex_args_def ex_model_def ex_env_def ex_world_def)


text \<open>
  Claim C6. For every set of constructor arguments: if the \<open>nn\<close> argument is not \<open>None\<close>,
  the constructor returns a model whose wrapped network is exactly that object, and calls
  no library constructor and allocates nothing (the world is unchanged). If \<open>nn\<close> is
  \<open>None\<close>, it calls \<open>NeuralNetwork\<close> exactly once, with the given layer list, batch size,
  learning rate, attenuation rate and epoch, pre-learned paths, \<open>epochs = 200\<close>, and the
  given loss, optimizer and verification objects or, for an argument that is \<open>None\<close>,
  \<open>MeanSquaredError()\<close>, \<open>Adam()\<close> (with weight limit \<open>1e+10\<close> and dropout rate 0) and
  \<open>VerificateFunctionApproximation()\<close>; the model wraps the new object when that call
  returns, and the constructor raises what the call raises otherwise.
\<close>

theorem init_wraps_or_builds:
  assumes "init env args w = (res, w')"
  shows "(\<forall>r. arg_nn args = Some r \<longrightarrow>
            (\<exists>m. res = Inr m \<and> nn m = r) \<and> w' = w)
    \<and> (arg_nn args = None \<longrightarrow>
         (\<exists>kw. calls w' = calls w @ [New_NeuralNetwork kw]
            \<and> kw_nn_layer_list kw = arg_nn_layer_list args
            \<and> kw_epochs kw = 200
            \<and> kw_batch_size kw = arg_batch_size args
            \<and> kw_learning_rate kw = arg_learning_rate args
            \<and> kw_learning_attenuate_rate kw = arg_learning_attenuate_rate args
            \<and> kw_attenuate_epoch kw = arg_attenuate_epoch args
            \<and> kw_pre_learned_path_list kw = arg_pre_learned_path_list args
            \<and> kw_computable_loss kw
                = (case arg_computable_loss args of None \<Rightarrow> MeanSquaredError | Some l \<Rightarrow> l)
            \<and> kw_opt_params kw
                = (case arg_opt_params args of None \<Rightarrow> Adam (10 ^ 10) 0 | Some p \<Rightarrow> p)
            \<and> kw_verificatable_result kw
                = (case arg_verificatable_result args of
                     None \<Rightarrow> VerificateFunctionApproximation | Some v \<Rightarrow> v)
            \<and> (case NeuralNetwork env kw of
                  Inl s \<Rightarrow> res = Inl (Raised s) \<and> heap w' = heap w \<and> next_ref w' = next_ref w
                | Inr obj \<Rightarrow>
                    (\<exists>m. res = Inr m \<and> nn m = next_ref w)
                    \<and> heap w' = (heap w)(next_ref w := obj)
                    \<and> next_ref w' = next_ref w + 1)))"
proof (cases "arg_nn args")
  case (Some r)
  then show ?thesis using assms by (auto simp: init_def fields_def)
next
  case None
  let ?kw = "default_kwargs args"
  have kw: "kw_nn_layer_list ?kw = arg_nn_layer_list args" "kw_epochs ?kw = 200"
    "kw_batch_size ?kw = arg_batch_size args" "kw_learning_rate ?kw = arg_learning_rate args"
    "kw_learning_attenuate_rate ?kw = arg_learning_attenuate_rate args"
    "kw_attenuate_epoch ?kw = arg_attenuate_epoch args"
    "kw_pre_learned_path_list ?kw = arg_pre_learned_path_list args"
    "kw_computable_loss ?kw
       = (case arg_computable_loss args of None \<Rightarrow> MeanSquaredError | Some l \<Rightarrow> l)"
    "kw_opt_params ?kw
       = (case arg_opt_params args of None \<Rightarrow> Adam (10 ^ 10) 0 | Some p \<Rightarrow> p)"
    "kw_verificatable_result ?kw
       = (case arg_verificatable_result args of
            None \<Rightarrow> VerificateFunctionApproximation | Some v \<Rightarrow> v)"
    by (simp_all add: default_kwargs_def default_computable_loss_def default_opt_params_def
          default_verificatable_result_def)
  have c: "calls w' = calls w @ [New_NeuralNetwork ?kw]"
    using assms None
    by (cases "NeuralNetwork env ?kw") (auto simp: init_def new_NeuralNetwork_def)
  have n: "(case NeuralNetwork env ?kw of
                  Inl s \<Rightarrow> res = Inl (Raised s) \<and> heap w' = heap w \<and> next_ref w' = next_ref w
                | Inr obj \<Rightarrow>
                    (\<exists>m. res = Inr m \<and> nn m = next_ref w)
                    \<and> heap w' = (heap w)(next_ref w := obj)
                    \<and> next_ref w' = next_ref w + 1)"
    using assms None
    by (cases "NeuralNetwork env ?kw") (auto simp: init_def new_NeuralNetwork_def fields_def)
  show ?thesis
    using None c n kw by (intro conjI allI impI exI [of _ ?kw]) simp_all
qed

theorem init_wraps_or_builds_witness:
  "arg_nn ex_args = Some 0
   \<and> init ex_env ex_args ex_world = (Inr ex_model, ex_world)
   \<and> nn ex_model = 0
   \<and> arg_nn (ex_args\<lparr>arg_nn := None\<rparr>) = None
   \<and> fst (init ex_env (ex_args\<lparr>arg_nn := None\<rparr>) ex_world) = Inr (ex_model\<lparr>nn := 1\<rparr>)
   \<and> (\<exists>kw. calls (snd (init ex_env (ex_args\<lparr>arg_nn := None\<rparr>) ex_world))
               = calls ex_world @ [New_NeuralNetwork kw]
            \<and> kw_epochs kw = 200
            \<and> kw_computable_loss kw = MeanSquaredError
            \<and> kw_opt_params kw = Adam (10 ^ 10) 0
            \<and> kw_verificatable_result kw = VerificateFunctionApproximation)"
proof -
  have a: "arg_nn ex_args = Some 0" by (simp add: ex_args_def)
  have b: "arg_nn (ex_args\<lparr>arg_nn := None\<rparr>) = None" by simp
  have d: "arg_computable_loss (ex_args\<lparr>arg_nn := None\<rparr>) = None"
    "arg_opt_params (ex_args\<lparr>arg_nn := None\<rparr>) = None"
    "arg_verificatable_result (ex_args\<lparr>arg_nn := None\<rparr>) = None"
    by (simp_all add: ex_args_def)
  from init_wraps_or_builds [OF init_ex] a have n: "nn ex_model = 0" by auto
  from init_wraps_or_builds [OF init_ex_none] b
  obtain kw where kw:
    "calls (snd (init ex_env (ex_args\<lparr>arg_nn := None\<rparr>) ex_world))
       = calls ex_world @ [New_NeuralNetwork kw]"
    "kw_epochs kw = 200"
    "kw_computable_loss kw
       = (case arg_computable_loss (ex_args\<lparr>arg_nn := None\<rparr>) of
            None \<Rightarrow> MeanSquaredError | Some l \<Rightarrow> l)"
    "kw_opt_params kw
       = (case arg_opt_params (ex_args\<lparr>arg_nn := None\<rparr>) of
            None \<Rightarrow> Adam (10 ^ 10) 0 | Some p \<Rightarrow> p)"
    "kw_verificatable_result kw
       = (case arg_verificatable_result (ex_args\<lparr>arg_nn := None\<rparr>) of
            None \<Rightarrow> VerificateFunctionApproximation | Some v \<Rightarrow> v)"
    unfolding init_ex_none snd_conv by blast
  have e: "\<exists>kw. calls (snd (init ex_env (ex_args\<lparr>arg_nn := None\<rparr>) ex_world))
               = calls ex_world @ [New_NeuralNetwork kw]
            \<and> kw_epochs kw = 200
            \<and> kw_computable_loss kw = MeanSquaredError
            \<and> kw_opt_params kw = Adam (10 ^ 10) 0
            \<and> kw_verificatable_result kw = VerificateFunctionApproximation"
    using kw unfolding d by (intro exI [of _ kw]) simp
  have f: "fst (init ex_env (ex_args\<lparr>arg_nn := None\<rparr>) ex_world) = Inr (ex_model\<lparr>nn := 1\<rparr>)"
    by (simp only: init_ex_none fst_conv)
  from a init_ex n b f e show ?thesis by (intro conjI)
qed

end
